theory Spec2Isabelle
  imports Complex_Main
begin

section \<open>Numbers\<close>

text \<open>
  A TypeScript \<open>number\<close> is either a finite number, one of the two infinities, or NaN.
  Finite numbers are held exactly, as rationals: the binary rounding of IEEE doubles, their
  overflow and the sign of zero are not part of this development, so \<open>+\<close>, \<open>-\<close>, \<open>*\<close> and
  \<open>/\<close> on finite operands are the exact operations. What is modelled is the division by
  zero, which gives an infinity or NaN, and the way infinities and NaN propagate through
  every later operation as they do in JavaScript. The results below state what a field
  holds as the expression the code computes; none of them says that a result is finite.
\<close>

datatype number = Fin rat | PosInf | NegInf | NaN

text \<open>Unary minus.\<close>

fun js_neg :: "number \<Rightarrow> number" where
  "js_neg (Fin a) = Fin (- a)"
| "js_neg PosInf = NegInf"
| "js_neg NegInf = PosInf"
| "js_neg NaN = NaN"

text \<open>\<open>a - b\<close>\<close>

fun js_sub :: "number \<Rightarrow> number \<Rightarrow> number" where
  "js_sub NaN _ = NaN"
| "js_sub _ NaN = NaN"
| "js_sub (Fin a) (Fin b) = Fin (a - b)"
| "js_sub (Fin a) PosInf = NegInf"
| "js_sub (Fin a) NegInf = PosInf"
| "js_sub PosInf (Fin b) = PosInf"
| "js_sub NegInf (Fin b) = NegInf"
| "js_sub PosInf NegInf = PosInf"
| "js_sub NegInf PosInf = NegInf"
| "js_sub PosInf PosInf = NaN"
| "js_sub NegInf NegInf = NaN"

text \<open>\<open>a * b\<close>: an infinity times zero is NaN, otherwise the signs multiply.\<close>

fun js_mul :: "number \<Rightarrow> number \<Rightarrow> number" where
  "js_mul NaN _ = NaN"
| "js_mul _ NaN = NaN"
| "js_mul (Fin a) (Fin b) = Fin (a * b)"
| "js_mul (Fin a) PosInf = (if a = 0 then NaN else if 0 < a then PosInf else NegInf)"
| "js_mul (Fin a) NegInf = (if a = 0 then NaN else if 0 < a then NegInf else PosInf)"
| "js_mul PosInf (Fin b) = (if b = 0 then NaN else if 0 < b then PosInf else NegInf)"
| "js_mul NegInf (Fin b) = (if b = 0 then NaN else if 0 < b then NegInf else PosInf)"
| "js_mul PosInf PosInf = PosInf"
| "js_mul NegInf NegInf = PosInf"
| "js_mul PosInf NegInf = NegInf"
| "js_mul NegInf PosInf = NegInf"

text \<open>
  \<open>a / b\<close>: a finite number divided by zero is an infinity of its sign, \<open>0 / 0\<close> is NaN,
  a finite number divided by an infinity is zero, and an infinity divided by an infinity
  is NaN.
\<close>

fun js_div :: "number \<Rightarrow> number \<Rightarrow> number" where
  "js_div NaN _ = NaN"
| "js_div _ NaN = NaN"
| "js_div (Fin a) (Fin b) =
     (if b \<noteq> 0 then Fin (a / b)
      else if a = 0 then NaN else if 0 < a then PosInf else NegInf)"
| "js_div (Fin a) PosInf = Fin 0"
| "js_div (Fin a) NegInf = Fin 0"
| "js_div PosInf (Fin b) = (if 0 \<le> b then PosInf else NegInf)"
| "js_div NegInf (Fin b) = (if 0 \<le> b then NegInf else PosInf)"
| "js_div PosInf PosInf = NaN"
| "js_div PosInf NegInf = NaN"
| "js_div NegInf PosInf = NaN"
| "js_div NegInf NegInf = NaN"

text \<open>\<open>a >= b\<close>: false as soon as one side is NaN.\<close>

fun js_ge :: "number \<Rightarrow> number \<Rightarrow> bool" where
  "js_ge NaN _ = False"
| "js_ge _ NaN = False"
| "js_ge (Fin a) (Fin b) = (b \<le> a)"
| "js_ge PosInf _ = True"
| "js_ge _ NegInf = True"
| "js_ge (Fin a) PosInf = False"
| "js_ge NegInf (Fin b) = False"
| "js_ge NegInf PosInf = False"

text \<open>\<open>Math.abs\<close>\<close>

fun js_abs :: "number \<Rightarrow> number" where
  "js_abs (Fin a) = Fin \<bar>a\<bar>"
| "js_abs PosInf = PosInf"
| "js_abs NegInf = PosInf"
| "js_abs NaN = NaN"

text \<open>\<open>Number.isNaN\<close>\<close>

fun isNaN :: "number \<Rightarrow> bool" where
  "isNaN NaN = True"
| "isNaN _ = False"

text \<open>
  The truth value of a \<open>number | undefined\<close> in a condition: \<open>undefined\<close>, zero and NaN
  are falsy, every other number is truthy.
\<close>

fun truthy :: "number option \<Rightarrow> bool" where
  "truthy None = False"
| "truthy (Some (Fin a)) = (a \<noteq> 0)"
| "truthy (Some NaN) = False"
| "truthy (Some _) = True"

section \<open>Compare page: the delta calculator\<close>

text \<open>
  \<^verbatim>\<open>function pctDelta(from?: number, to?: number) {
    if (from == null || to == null || from === 0) return undefined;
    return ((to - from) / from) * 100;
  }\<close>
\<close>

definition pctDelta :: "number option \<Rightarrow> number option \<Rightarrow> number option" where
  "pctDelta from to =
     (case from of
        None \<Rightarrow> None
      | Some f \<Rightarrow>
          (case to of
             None \<Rightarrow> None
           | Some t \<Rightarrow>
               if f = Fin 0 then None
               else Some (js_mul (js_div (js_sub t f) f) (Fin 100))))"

section \<open>Data model\<close>

text \<open>
  \<^verbatim>\<open>type SeriesPoint = { date: string; value: number };
  type Series = { key: string; unit?: string; points: SeriesPoint[] };\<close>

  The field \<open>value\<close> is \<open>val\<close> here. The series are the body of an HTTP response, read
  as JSON; a numeral beyond the range of doubles, such as \<open>1e400\<close>, is read as an infinity.
\<close>

record SeriesPoint =
  date :: string
  val :: number

record Series =
  series_key :: string
  unit :: "string option"
  points :: "SeriesPoint list"

text \<open>
  \<^verbatim>\<open>export type Filing = {
    accession: string; form: string; periodEnd: string; filedAt: string; parseStatus: string;
  };\<close>
\<close>

record Filing =
  accession :: string
  form :: string
  periodEnd :: string
  filedAt :: string
  parseStatus :: string

text \<open>
  What the compare page reads: the two accession numbers of the URL (\<open>""\<close> when
  absent) and the data of its two queries (\<open>undefined\<close> until a query has answered).
\<close>

record ComparePage =
  leftAcc :: string
  rightAcc :: string
  filingsQ_data :: "Filing list option"
  metricsQ_data :: "Series list option"

text \<open>
  \<^verbatim>\<open>const fLeft  = filingsQ.data?.find(f => f.accession === leftAcc);
  const leftDate  = fLeft?.periodEnd;\<close>
\<close>

definition periodOf :: "Filing list option \<Rightarrow> string \<Rightarrow> string option" where
  "periodOf fs acc =
     (case fs of
        None \<Rightarrow> None
      | Some xs \<Rightarrow> map_option periodEnd (find (\<lambda>f. accession f = acc) xs))"

definition leftDate :: "ComparePage \<Rightarrow> string option" where
  "leftDate st = periodOf (filingsQ_data st) (leftAcc st)"

definition rightDate :: "ComparePage \<Rightarrow> string option" where
  "rightDate st = periodOf (filingsQ_data st) (rightAcc st)"

text \<open>The truth value of a \<open>string | undefined\<close>: \<open>undefined\<close> and \<open>""\<close> are falsy.\<close>

fun nonempty :: "string option \<Rightarrow> bool" where
  "nonempty None = False"
| "nonempty (Some s) = (s \<noteq> [])"

text \<open>\<^verbatim>\<open>const ready = !!(leftAcc && rightAcc && leftDate && rightDate);\<close>\<close>

definition ready :: "ComparePage \<Rightarrow> bool" where
  "ready st \<longleftrightarrow>
     leftAcc st \<noteq> [] \<and> rightAcc st \<noteq> [] \<and> nonempty (leftDate st) \<and> nonempty (rightDate st)"

text \<open>
  \<^verbatim>\<open>function valAt(key: string, d?: string): number | undefined {
    if (!d) return undefined;
    const s = metricsQ.data?.series.find(x => x.key === key)?.points ?? [];
    const p = s.find(pt => pt.date === d);
    return p?.value;
  }\<close>
\<close>

definition valAt :: "Series list option \<Rightarrow> string \<Rightarrow> string option \<Rightarrow> number option" where
  "valAt dat k dt =
     (if \<not> nonempty dt then None
      else
        let s = (case dat of
                   None \<Rightarrow> []
                 | Some ss \<Rightarrow>
                     (case find (\<lambda>x. series_key x = k) ss of
                        None \<Rightarrow> []
                      | Some x \<Rightarrow> points x))
        in map_option val (find (\<lambda>pt. Some (date pt) = dt) s))"

section \<open>Compare page: the comparison table\<close>

text \<open>
  \<^verbatim>\<open>const TABLE_KEYS: { key: string; label: string; digits?: number; asPct?: boolean }[] = [
    { key: "revenue",         label: "Revenue ($m)" },
    { key: "gm",              label: "Gross Margin (%)", digits: 1, asPct: true },
    { key: "eps_diluted",     label: "EPS (diluted, $/sh)", digits: 2 },
    { key: "assets",          label: "Assets ($m)" },
    { key: "liabilities",     label: "Liabilities ($m)" },
    { key: "operating_income",label: "Operating Inc. ($m)" },
    { key: "net_income",      label: "Net Income ($m)" },
    { key: "equity",          label: "Equity ($m)" },
  ];\<close>
\<close>

record MetricSpec =
  key :: string
  label :: string
  digits :: "nat option"
  asPct :: "bool option"

definition TABLE_KEYS :: "MetricSpec list" where
  "TABLE_KEYS =
     [\<lparr>key = ''revenue'', label = ''Revenue ($m)'', digits = None, asPct = None\<rparr>,
      \<lparr>key = ''gm'', label = ''Gross Margin (%)'', digits = Some 1, asPct = Some True\<rparr>,
      \<lparr>key = ''eps_diluted'', label = ''EPS (diluted, $/sh)'', digits = Some 2, asPct = None\<rparr>,
      \<lparr>key = ''assets'', label = ''Assets ($m)'', digits = None, asPct = None\<rparr>,
      \<lparr>key = ''liabilities'', label = ''Liabilities ($m)'', digits = None, asPct = None\<rparr>,
      \<lparr>key = ''operating_income'', label = ''Operating Inc. ($m)'', digits = None, asPct = None\<rparr>,
      \<lparr>key = ''net_income'', label = ''Net Income ($m)'', digits = None, asPct = None\<rparr>,
      \<lparr>key = ''equity'', label = ''Equity ($m)'', digits = None, asPct = None\<rparr>]"

text \<open>A row is its catalog entry together with the four computed fields.\<close>

record Row = MetricSpec +
  l :: "number option"
  r :: "number option"
  d :: "number option"
  dpct :: "number option"

text \<open>\<open>x != null ? x * 100 : undefined\<close> when \<open>asPct\<close> is truthy, \<open>x\<close> otherwise.\<close>

definition scaled :: "bool option \<Rightarrow> number option \<Rightarrow> number option" where
  "scaled pct raw =
     (if pct = Some True then map_option (\<lambda>x. js_mul x (Fin 100)) raw else raw)"

text \<open>
  \<^verbatim>\<open>const rows = TABLE_KEYS.map(k => {
    const lRaw = valAt(k.key, leftDate);
    const rRaw = valAt(k.key, rightDate);
    const l = k.asPct ? (lRaw != null ? lRaw * 100 : undefined) : lRaw;
    const r = k.asPct ? (rRaw != null ? rRaw * 100 : undefined) : rRaw;
    const d = (l != null && r != null) ? (r - l) : undefined;
    const dpct = pctDelta(l, r);
    return { ...k, l, r, d, dpct };
  });\<close>

  \<open>absDelta\<close> is the expression for \<open>d\<close>, \<open>row\<close> is the function mapped over the
  catalog.
\<close>

definition absDelta :: "number option \<Rightarrow> number option \<Rightarrow> number option" where
  "absDelta lv rv =
     (case lv of
        None \<Rightarrow> None
      | Some a \<Rightarrow> (case rv of None \<Rightarrow> None | Some b \<Rightarrow> Some (js_sub b a)))"

definition row :: "ComparePage \<Rightarrow> MetricSpec \<Rightarrow> Row" where
  "row st k =
     (let lRaw = valAt (metricsQ_data st) (key k) (leftDate st);
          rRaw = valAt (metricsQ_data st) (key k) (rightDate st);
          lv = scaled (asPct k) lRaw;
          rv = scaled (asPct k) rRaw
      in \<lparr>key = key k, label = label k, digits = digits k, asPct = asPct k,
          l = lv, r = rv, d = absDelta lv rv, dpct = pctDelta lv rv\<rparr>)"

definition rows :: "ComparePage \<Rightarrow> Row list" where
  "rows st = map (row st) TABLE_KEYS"

section \<open>Printing numbers\<close>

text \<open>The decimal digits of a natural number, without leading zeros.\<close>

definition digit :: "nat \<Rightarrow> char" where
  "digit n = ''0123456789'' ! n"

fun decimal :: "nat \<Rightarrow> string" where
  "decimal n = (if n < 10 then [digit n] else decimal (n div 10) @ [digit (n mod 10)])"

declare decimal.simps [simp del]

text \<open>
  The digits of \<open>n\<close> split before the last \<open>f\<close> of them, with zeros in front where \<open>n\<close> has
  fewer than \<open>f + 1\<close> digits: the integer digits and the \<open>f\<close> fraction digits of
  \<open>n / 10 ^ f\<close>.
\<close>

definition split_digits :: "nat \<Rightarrow> nat \<Rightarrow> string \<times> string" where
  "split_digits n f =
     (let m = decimal n;
          m = (if length m \<le> f then replicate (f + 1 - length m) (CHR ''0'') @ m else m);
          k = length m
      in (take (k - f) m, drop (k - f) m))"

text \<open>
  The nearest integer to a magnitude times \<open>10 ^ f\<close>, the larger one of two that are
  equally near.
\<close>

definition scaled_round :: "rat \<Rightarrow> nat \<Rightarrow> nat" where
  "scaled_round q f = nat \<lfloor>\<bar>q\<bar> * 10 ^ f + 1 / 2\<rfloor>"

definition strip_zeros :: "string \<Rightarrow> string" where
  "strip_zeros s = rev (dropWhile (\<lambda>c. c = CHR ''0'') (rev s))"

text \<open>
  A number of \<open>10 ^ 21\<close> or more in exponent notation: the first digit, the other digits
  up to the last one that is not zero, and the exponent (numbers of that size are integers
  as doubles; the digits printed here are the exact ones).
\<close>

definition exponential :: "rat \<Rightarrow> string" where
  "exponential q =
     (let m = decimal (nat \<lfloor>q\<rfloor>);
          s = strip_zeros m
      in take 1 s @ (if length s \<le> 1 then [] else ''.'' @ drop 1 s)
           @ ''e+'' @ decimal (length m - 1))"

text \<open>
  \<open>x.toFixed(f)\<close> (ECMA-262, Number.prototype.toFixed): a number that is not finite prints
  as its name; otherwise the sign, and the magnitude rounded to \<open>f\<close> fraction digits, all
  \<open>f\<close> of them printed.
\<close>

definition toFixed :: "number \<Rightarrow> nat \<Rightarrow> string" where
  "toFixed x f =
     (case x of
        NaN \<Rightarrow> ''NaN''
      | PosInf \<Rightarrow> ''Infinity''
      | NegInf \<Rightarrow> ''-Infinity''
      | Fin q \<Rightarrow>
          (if q < 0 then ''-'' else [])
          @ (if 10 ^ 21 \<le> \<bar>q\<bar> then exponential \<bar>q\<bar>
             else
               let (a, b) = split_digits (scaled_round q f) f
               in if f = 0 then a else a @ ''.'' @ b))"

text \<open>Groups of three digits from the right, separated by commas.\<close>

fun group3 :: "string \<Rightarrow> string" where
  "group3 s =
     (if length s \<le> 3 then s
      else group3 (take (length s - 3) s) @ '','' @ drop (length s - 3) s)"

declare group3.simps [simp del]

text \<open>
  \<^verbatim>\<open>n.toLocaleString(undefined, { maximumFractionDigits: digits })\<close> prints in the default
  locale of the browser, so the pages' functions take the printer as a parameter \<open>loc\<close>.
  \<open>en_US\<close> is that printer for the locale en-US (ECMA-402, decimal style): the magnitude is
  rounded to at most \<open>mx\<close> fraction digits, halves away from zero; the fraction digits are
  printed up to the last one that is not zero, and the decimal point only when one is left;
  the integer digits are grouped by three; a negative number, also one that rounds to
  zero, has a minus sign.
\<close>

definition infinity_sign :: string where
  "infinity_sign = [CHR 0xE2, CHR 0x88, CHR 0x9E]"

definition en_US :: "number \<Rightarrow> nat \<Rightarrow> string" where
  "en_US x mx =
     (case x of
        NaN \<Rightarrow> ''NaN''
      | PosInf \<Rightarrow> infinity_sign
      | NegInf \<Rightarrow> ''-'' @ infinity_sign
      | Fin q \<Rightarrow>
          (let (a, b) = split_digits (scaled_round q mx) mx;
               b = strip_zeros b
           in (if q < 0 then ''-'' else []) @ group3 a @ (if b = [] then [] else ''.'' @ b)))"

text \<open>
  The same printer for ar-EG, a locale whose digits are not the ASCII ones: what en-US
  prints, written with the Arabic-Indic digits U+0660 to U+0669, with U+066B for the
  decimal point, U+066C between the groups and U+061C before the minus sign (all in
  UTF-8). NaN prints as the Arabic words for it; \<open>fmt\<close> never passes one.
\<close>

definition arabic_indic :: "char \<Rightarrow> string" where
  "arabic_indic c =
     (if c = CHR ''0'' then [CHR 0xD9, CHR 0xA0]
      else if c = CHR ''1'' then [CHR 0xD9, CHR 0xA1]
      else if c = CHR ''2'' then [CHR 0xD9, CHR 0xA2]
      else if c = CHR ''3'' then [CHR 0xD9, CHR 0xA3]
      else if c = CHR ''4'' then [CHR 0xD9, CHR 0xA4]
      else if c = CHR ''5'' then [CHR 0xD9, CHR 0xA5]
      else if c = CHR ''6'' then [CHR 0xD9, CHR 0xA6]
      else if c = CHR ''7'' then [CHR 0xD9, CHR 0xA7]
      else if c = CHR ''8'' then [CHR 0xD9, CHR 0xA8]
      else if c = CHR ''9'' then [CHR 0xD9, CHR 0xA9]
      else if c = CHR ''.'' then [CHR 0xD9, CHR 0xAB]
      else if c = CHR '','' then [CHR 0xD9, CHR 0xAC]
      else if c = CHR ''-'' then [CHR 0xD8, CHR 0x9C, CHR ''-'']
      else [c])"

definition ar_EG :: "number \<Rightarrow> nat \<Rightarrow> string" where
  "ar_EG x mx =
     (case x of
        NaN \<Rightarrow> [CHR 0xD9, CHR 0x84, CHR 0xD9, CHR 0x8A, CHR 0xD8, CHR 0xB3, CHR '' '',
                CHR 0xD8, CHR 0xB1, CHR 0xD9, CHR 0x82, CHR 0xD9, CHR 0x85]
      | _ \<Rightarrow> concat (map arabic_indic (en_US x mx)))"

text \<open>
  \<^verbatim>\<open>function fmt(n?: number, digits = 0) {
    if (n == null || Number.isNaN(n)) return "\<emdash>";
    return n.toLocaleString(undefined, { maximumFractionDigits: digits });
  }\<close>
  The dash is U+2014, three bytes in UTF-8. An omitted \<open>digits\<close> is \<open>None\<close>.
\<close>

definition em_dash :: string where
  "em_dash = [CHR 0xE2, CHR 0x80, CHR 0x94]"

definition fmt :: "(number \<Rightarrow> nat \<Rightarrow> string) \<Rightarrow> number option \<Rightarrow> nat option \<Rightarrow> string" where
  "fmt loc n dg =
     (case n of
        None \<Rightarrow> em_dash
      | Some x \<Rightarrow>
          if isNaN x then em_dash
          else loc x (case dg of None \<Rightarrow> 0 | Some k \<Rightarrow> k))"

section \<open>Compare page: table cells and summary bullets\<close>

text \<open>
  The five cells of a table row:
  \<^verbatim>\<open><td>{r.label}</td>
  <td>{fmt(r.l, r.digits)}</td>
  <td>{fmt(r.r, r.digits)}</td>
  <td>{fmt(r.d, r.digits)}</td>
  <td>{r.dpct != null ? `${r.dpct >= 0 ? "+" : ""}${r.dpct.toFixed(1)}%` : "\<emdash>"}</td>\<close>
\<close>

definition cells :: "(number \<Rightarrow> nat \<Rightarrow> string) \<Rightarrow> Row \<Rightarrow> string list" where
  "cells loc rw =
     [label rw,
      fmt loc (l rw) (digits rw),
      fmt loc (r rw) (digits rw),
      fmt loc (d rw) (digits rw),
      (case dpct rw of
         None \<Rightarrow> em_dash
       | Some p \<Rightarrow> (if js_ge p (Fin 0) then ''+'' else []) @ toFixed p 1 @ ''%'')]"

text \<open>\<^verbatim>\<open>const get = (k: string) => rows.find(r => r.key === k);\<close>\<close>

definition get :: "Row list \<Rightarrow> string \<Rightarrow> Row option" where
  "get rs k = find (\<lambda>rw. key rw = k) rs"

text \<open>
  \<open>x >= 0\<close> for an \<open>x\<close> that may be \<open>undefined\<close> (then the comparison is false), and
  \<open>(x ?? 0) >= 0\<close>.
\<close>

definition ge0 :: "number option \<Rightarrow> bool" where
  "ge0 x = (case x of None \<Rightarrow> False | Some v \<Rightarrow> js_ge v (Fin 0))"

definition ge0_or_zero :: "number option \<Rightarrow> bool" where
  "ge0_or_zero x = js_ge (case x of None \<Rightarrow> Fin 0 | Some v \<Rightarrow> v) (Fin 0)"

text \<open>
  The eight template strings of \<open>bullets\<close>, each a function of the row and of the delta
  that its \<open>if\<close> has found defined.

  \<^verbatim>\<open>`Revenue ${rev.dpct >= 0 ? "increased" : "decreased"} ${Math.abs(rev.dpct).toFixed(1)}% (${rev.d! >= 0 ? "+" : ""}${fmt(rev.d, 0)}), from ${fmt(rev.l, 0)} to ${fmt(rev.r, 0)}.`\<close>
\<close>

definition revenue_line :: "(number \<Rightarrow> nat \<Rightarrow> string) \<Rightarrow> Row \<Rightarrow> number \<Rightarrow> string" where
  "revenue_line loc rw p =
     ''Revenue '' @ (if js_ge p (Fin 0) then ''increased'' else ''decreased'') @ '' ''
     @ toFixed (js_abs p) 1 @ ''% ('' @ (if ge0 (d rw) then ''+'' else [])
     @ fmt loc (d rw) (Some 0) @ ''), from '' @ fmt loc (l rw) (Some 0)
     @ '' to '' @ fmt loc (r rw) (Some 0) @ ''.''"

text \<open>
  \<^verbatim>\<open>`Gross margin ${(gm.d ?? 0) >= 0 ? "expanded" : "contracted"} ${Math.abs(gm.d!).toFixed(1)} p.p., from ${fmt(gm.l, 1)}% to ${fmt(gm.r, 1)}%.`\<close>
\<close>

definition gm_line :: "(number \<Rightarrow> nat \<Rightarrow> string) \<Rightarrow> Row \<Rightarrow> number \<Rightarrow> string" where
  "gm_line loc rw dv =
     ''Gross margin '' @ (if ge0_or_zero (d rw) then ''expanded'' else ''contracted'') @ '' ''
     @ toFixed (js_abs dv) 1 @ '' p.p., from '' @ fmt loc (l rw) (Some 1)
     @ ''% to '' @ fmt loc (r rw) (Some 1) @ ''%.''"

text \<open>
  \<^verbatim>\<open>`EPS (diluted) ${eps.dpct >= 0 ? "rose" : "fell"} ${Math.abs(eps.dpct).toFixed(1)}%, from ${fmt(eps.l, 2)} to ${fmt(eps.r, 2)}.`\<close>
\<close>

definition eps_line :: "(number \<Rightarrow> nat \<Rightarrow> string) \<Rightarrow> Row \<Rightarrow> number \<Rightarrow> string" where
  "eps_line loc rw p =
     ''EPS (diluted) '' @ (if js_ge p (Fin 0) then ''rose'' else ''fell'') @ '' ''
     @ toFixed (js_abs p) 1 @ ''%, from '' @ fmt loc (l rw) (Some 2)
     @ '' to '' @ fmt loc (r rw) (Some 2) @ ''.''"

text \<open>
  \<^verbatim>\<open>`Operating income ${oi.dpct >= 0 ? "up" : "down"} ${Math.abs(oi.dpct).toFixed(1)}% (${oi.d! >= 0 ? "+" : ""}${fmt(oi.d, 0)}).`\<close>
\<close>

definition oi_line :: "(number \<Rightarrow> nat \<Rightarrow> string) \<Rightarrow> Row \<Rightarrow> number \<Rightarrow> string" where
  "oi_line loc rw p =
     ''Operating income '' @ (if js_ge p (Fin 0) then ''up'' else ''down'') @ '' ''
     @ toFixed (js_abs p) 1 @ ''% ('' @ (if ge0 (d rw) then ''+'' else [])
     @ fmt loc (d rw) (Some 0) @ '').''"

text \<open>
  \<^verbatim>\<open>`Net income ${ni.dpct >= 0 ? "improved" : "declined"} ${Math.abs(ni.dpct).toFixed(1)}% (${ni.d! >= 0 ? "+" : ""}${fmt(ni.d, 0)}).`\<close>
\<close>

definition ni_line :: "(number \<Rightarrow> nat \<Rightarrow> string) \<Rightarrow> Row \<Rightarrow> number \<Rightarrow> string" where
  "ni_line loc rw p =
     ''Net income '' @ (if js_ge p (Fin 0) then ''improved'' else ''declined'') @ '' ''
     @ toFixed (js_abs p) 1 @ ''% ('' @ (if ge0 (d rw) then ''+'' else [])
     @ fmt loc (d rw) (Some 0) @ '').''"

text \<open>
  \<^verbatim>\<open>`Assets ${ast.dpct >= 0 ? "grew" : "declined"} ${Math.abs(ast.dpct).toFixed(1)}%.`
  `Liabilities ${li.dpct >= 0 ? "increased" : "decreased"} ${Math.abs(li.dpct).toFixed(1)}%.`
  `Equity ${eq.dpct >= 0 ? "expanded" : "contracted"} ${Math.abs(eq.dpct).toFixed(1)}%.`\<close>
\<close>

definition ast_line :: "Row \<Rightarrow> number \<Rightarrow> string" where
  "ast_line rw p =
     ''Assets '' @ (if js_ge p (Fin 0) then ''grew'' else ''declined'') @ '' ''
     @ toFixed (js_abs p) 1 @ ''%.''"

definition li_line :: "Row \<Rightarrow> number \<Rightarrow> string" where
  "li_line rw p =
     ''Liabilities '' @ (if js_ge p (Fin 0) then ''increased'' else ''decreased'') @ '' ''
     @ toFixed (js_abs p) 1 @ ''%.''"

definition eq_line :: "Row \<Rightarrow> number \<Rightarrow> string" where
  "eq_line rw p =
     ''Equity '' @ (if js_ge p (Fin 0) then ''expanded'' else ''contracted'') @ '' ''
     @ toFixed (js_abs p) 1 @ ''%.''"

text \<open>
  \<open>if (x?.dpct != null) out.push(line)\<close> and \<open>if (x?.d != null) out.push(line)\<close>: the
  strings the statement appends to \<open>out\<close>, none or one.
\<close>

definition push_if_dpct :: "Row option \<Rightarrow> (Row \<Rightarrow> number \<Rightarrow> string) \<Rightarrow> string list" where
  "push_if_dpct x line =
     (case x of
        None \<Rightarrow> []
      | Some rw \<Rightarrow> (case dpct rw of None \<Rightarrow> [] | Some p \<Rightarrow> [line rw p]))"

definition push_if_d :: "Row option \<Rightarrow> (Row \<Rightarrow> number \<Rightarrow> string) \<Rightarrow> string list" where
  "push_if_d x line =
     (case x of
        None \<Rightarrow> []
      | Some rw \<Rightarrow> (case d rw of None \<Rightarrow> [] | Some dv \<Rightarrow> [line rw dv]))"

text \<open>
  \<^verbatim>\<open>function bullets() {
    if (!ready) return [] as string[];
    const get = (k: string) => rows.find(r => r.key === k);
    const rev = get("revenue"), gm = get("gm"), eps = get("eps_diluted");
    const ast = get("assets"), li = get("liabilities");
    const oi = get("operating_income"), ni = get("net_income"), eq = get("equity");

    const out: string[] = [];
    if (rev?.dpct != null) out.push(...);
    if (gm?.d != null)     out.push(...);
    if (eps?.dpct != null) out.push(...);
    if (oi?.dpct != null)  out.push(...);
    if (ni?.dpct != null)  out.push(...);
    if (ast?.dpct != null) out.push(...);
    if (li?.dpct != null)  out.push(...);
    if (eq?.dpct != null)  out.push(...);
    return out;
  }\<close>
\<close>

definition bullets :: "(number \<Rightarrow> nat \<Rightarrow> string) \<Rightarrow> ComparePage \<Rightarrow> string list" where
  "bullets loc st =
     (if \<not> ready st then []
      else
        push_if_dpct (get (rows st) ''revenue'') (revenue_line loc)
        @ push_if_d (get (rows st) ''gm'') (gm_line loc)
        @ push_if_dpct (get (rows st) ''eps_diluted'') (eps_line loc)
        @ push_if_dpct (get (rows st) ''operating_income'') (oi_line loc)
        @ push_if_dpct (get (rows st) ''net_income'') (ni_line loc)
        @ push_if_dpct (get (rows st) ''assets'') ast_line
        @ push_if_dpct (get (rows st) ''liabilities'') li_line
        @ push_if_dpct (get (rows st) ''equity'') eq_line)"

section \<open>Ticker page: margins\<close>

text \<open>
  \<^verbatim>\<open>const series = metricsQ.data?.series ?? [];
  const valAt = (key: string, d?: string): number | undefined => {
    if (!d) return undefined;
    const pts = series.find(s => s.key === key)?.points ?? [];
    const p = pts.find(pt => pt.date === d);
    return p?.value;
  };\<close>
\<close>

record TickerPage =
  selected :: "Filing option"
  ticker_metricsQ_data :: "Series list option"

definition series :: "TickerPage \<Rightarrow> Series list" where
  "series pg = (case ticker_metricsQ_data pg of None \<Rightarrow> [] | Some ss \<Rightarrow> ss)"

definition ticker_valAt :: "TickerPage \<Rightarrow> string \<Rightarrow> string option \<Rightarrow> number option" where
  "ticker_valAt pg k dt =
     (if \<not> nonempty dt then None
      else
        let pts = (case find (\<lambda>s. series_key s = k) (series pg) of
                     None \<Rightarrow> []
                   | Some s \<Rightarrow> points s)
        in map_option val (find (\<lambda>pt. Some (date pt) = dt) pts))"

text \<open>
  \<^verbatim>\<open>const selectedDate = selected?.periodEnd
    || (series.find(s => s.key === "revenue")?.points.slice(-1)[0]?.date);\<close>
\<close>

definition selectedDate :: "TickerPage \<Rightarrow> string option" where
  "selectedDate pg =
     (if nonempty (map_option periodEnd (selected pg)) then map_option periodEnd (selected pg)
      else
        (case find (\<lambda>s. series_key s = ''revenue'') (series pg) of
           None \<Rightarrow> None
         | Some s \<Rightarrow> (case points s of [] \<Rightarrow> None | p # ps \<Rightarrow> Some (date (last (p # ps))))))"

text \<open>
  \<^verbatim>\<open>const rev = valAt("revenue", selectedDate);
  const gp  = valAt("gross_profit", selectedDate);
  const gmRatio  = (gp != null && rev) ? gp / rev : undefined;
  const oi  = valAt("operating_income", selectedDate);
  const ni  = valAt("net_income", selectedDate);
  const opMargin = (oi != null && rev) ? (oi / rev) : undefined;
  const netMargin = (ni != null && rev) ? (ni / rev) : undefined;\<close>

  The three margins are one expression on three numerators, \<open>over\<close>.
\<close>

definition over :: "number option \<Rightarrow> number option \<Rightarrow> number option" where
  "over num den =
     (case num of
        None \<Rightarrow> None
      | Some a \<Rightarrow> (if truthy den then map_option (js_div a) den else None))"

definition ticker_rev :: "TickerPage \<Rightarrow> number option" where
  "ticker_rev pg = ticker_valAt pg ''revenue'' (selectedDate pg)"

definition gp :: "TickerPage \<Rightarrow> number option" where
  "gp pg = ticker_valAt pg ''gross_profit'' (selectedDate pg)"

definition oi :: "TickerPage \<Rightarrow> number option" where
  "oi pg = ticker_valAt pg ''operating_income'' (selectedDate pg)"

definition ni :: "TickerPage \<Rightarrow> number option" where
  "ni pg = ticker_valAt pg ''net_income'' (selectedDate pg)"

definition gmRatio :: "TickerPage \<Rightarrow> number option" where
  "gmRatio pg = over (gp pg) (ticker_rev pg)"

definition opMargin :: "TickerPage \<Rightarrow> number option" where
  "opMargin pg = over (oi pg) (ticker_rev pg)"

definition netMargin :: "TickerPage \<Rightarrow> number option" where
  "netMargin pg = over (ni pg) (ticker_rev pg)"

section \<open>Notions of the specification and sample inputs\<close>

text \<open>
  Comparing the periods the other way round: the two accession numbers of the URL change
  places, the data stay.
\<close>

definition swapped :: "ComparePage \<Rightarrow> ComparePage" where
  "swapped st = st\<lparr>leftAcc := rightAcc st, rightAcc := leftAcc st\<rparr>"

text \<open>
  A compare page for two filings \<open>A\<close> and \<open>B\<close>, with one series for each given key and
  in it the value at the period end of \<open>A\<close> and the value at the period end of \<open>B\<close>.
\<close>

definition sample_page :: "(string \<times> rat \<times> rat) list \<Rightarrow> ComparePage" where
  "sample_page xs =
     \<lparr>leftAcc = ''A'', rightAcc = ''B'',
      filingsQ_data = Some
        [\<lparr>accession = ''A'', form = ''10-K'', periodEnd = ''2022-09-24'',
          filedAt = ''2022-10-28'', parseStatus = ''ok''\<rparr>,
         \<lparr>accession = ''B'', form = ''10-K'', periodEnd = ''2023-09-30'',
          filedAt = ''2023-11-03'', parseStatus = ''ok''\<rparr>],
      metricsQ_data = Some
        (map (\<lambda>(k, a, b).
                \<lparr>series_key = k, unit = None,
                 points = [\<lparr>date = ''2022-09-24'', val = Fin a\<rparr>,
                           \<lparr>date = ''2023-09-30'', val = Fin b\<rparr>]\<rparr>) xs)\<rparr>"

text \<open>The catalog entries by name.\<close>

definition revenue_spec :: MetricSpec where
  "revenue_spec = TABLE_KEYS ! 0"

definition gm_spec :: MetricSpec where
  "gm_spec = TABLE_KEYS ! 1"

text \<open>
  A ticker page with the filing \<open>B\<close> selected, and one series for each given key with its
  value at the period end of \<open>B\<close>.
\<close>

definition sample_ticker :: "(string \<times> number) list \<Rightarrow> TickerPage" where
  "sample_ticker xs =
     \<lparr>selected = Some \<lparr>accession = ''B'', form = ''10-K'', periodEnd = ''2023-09-30'',
          filedAt = ''2023-11-03'', parseStatus = ''ok''\<rparr>,
      ticker_metricsQ_data = Some
        (map (\<lambda>(k, a). \<lparr>series_key = k, unit = None,
                 points = [\<lparr>date = ''2023-09-30'', val = a\<rparr>]\<rparr>) xs)\<rparr>"

text \<open>
  The metric a sentence of the summary is about, read off its first words: each of the
  eight templates begins with the name of its metric.
\<close>

definition starts_with :: "string \<Rightarrow> string \<Rightarrow> bool" where
  "starts_with p s \<longleftrightarrow> take (length p) s = p"

definition subject :: "string \<Rightarrow> string option" where
  "subject s =
     (if starts_with ''Revenue '' s then Some ''revenue''
      else if starts_with ''Gross margin '' s then Some ''gm''
      else if starts_with ''EPS (diluted) '' s then Some ''eps_diluted''
      else if starts_with ''Assets '' s then Some ''assets''
      else if starts_with ''Liabilities '' s then Some ''liabilities''
      else if starts_with ''Operating income '' s then Some ''operating_income''
      else if starts_with ''Net income '' s then Some ''net_income''
      else if starts_with ''Equity '' s then Some ''equity''
      else None)"

text \<open>
  The specification's condition for a metric to contribute a sentence: its relevant delta
  is defined, which is the absolute delta for a ratio metric and the percent delta for
  every other one.
\<close>

definition relevant_delta_defined :: "ComparePage \<Rightarrow> string \<Rightarrow> bool" where
  "relevant_delta_defined st k =
     (case get (rows st) k of
        None \<Rightarrow> False
      | Some rw \<Rightarrow> if asPct rw = Some True then d rw \<noteq> None else dpct rw \<noteq> None)"

text \<open>The metric \<open>k\<close> as an entry of the list of subjects: there when it contributes.\<close>

definition told :: "ComparePage \<Rightarrow> string \<Rightarrow> string option list" where
  "told st k = (if relevant_delta_defined st k then [Some k] else [])"

text \<open>
  The order in which \<open>bullets\<close> tests the metrics and appends their sentences: the income
  statement first, then the balance sheet.
\<close>

definition narrative_order :: "string list" where
  "narrative_order =
     [''revenue'', ''gm'', ''eps_diluted'', ''operating_income'', ''net_income'',
      ''assets'', ''liabilities'', ''equity'']"

section \<open>Facts about the table builder\<close>

lemma scaled_eq_None [simp]: "scaled pct x = None \<longleftrightarrow> x = None"
  by (simp add: scaled_def)

lemma row_l: "l (row st k) = scaled (asPct k) (valAt (metricsQ_data st) (key k) (leftDate st))"
  by (simp add: row_def Let_def)

lemma row_r: "r (row st k) = scaled (asPct k) (valAt (metricsQ_data st) (key k) (rightDate st))"
  by (simp add: row_def Let_def)

lemma row_d: "d (row st k) = absDelta (l (row st k)) (r (row st k))"
  by (simp add: row_def Let_def)

lemma row_dpct: "dpct (row st k) = pctDelta (l (row st k)) (r (row st k))"
  by (simp add: row_def Let_def)

lemma row_key: "key (row st k) = key k" and row_asPct: "asPct (row st k) = asPct k"
  by (simp_all add: row_def Let_def)

lemma js_sub_swap: "js_sub b a = js_neg (js_sub a b)"
  by (cases a; cases b) simp_all

lemma absDelta_swap: "absDelta x y = Some a \<Longrightarrow> absDelta y x = Some b \<Longrightarrow> a = js_neg b"
  by (cases x; cases y) (auto simp: absDelta_def intro: js_sub_swap)

lemma swapped_dates:
  "leftDate (swapped st) = rightDate st"
  "rightDate (swapped st) = leftDate st"
  "metricsQ_data (swapped st) = metricsQ_data st"
  by (simp_all add: swapped_def leftDate_def rightDate_def)

lemma get_rows:
  "get (rows st) ''revenue'' = Some (row st revenue_spec)"
  "get (rows st) ''gm'' = Some (row st gm_spec)"
  "get (rows st) ''eps_diluted'' = Some (row st (TABLE_KEYS ! 2))"
  "get (rows st) ''assets'' = Some (row st (TABLE_KEYS ! 3))"
  "get (rows st) ''liabilities'' = Some (row st (TABLE_KEYS ! 4))"
  "get (rows st) ''operating_income'' = Some (row st (TABLE_KEYS ! 5))"
  "get (rows st) ''net_income'' = Some (row st (TABLE_KEYS ! 6))"
  "get (rows st) ''equity'' = Some (row st (TABLE_KEYS ! 7))"
  by (simp_all add: get_def rows_def revenue_spec_def gm_spec_def TABLE_KEYS_def row_key)

lemma spec_fields:
  "key revenue_spec = ''revenue''" "asPct revenue_spec = None" "digits revenue_spec = None"
  "key gm_spec = ''gm''" "asPct gm_spec = Some True" "digits gm_spec = Some 1"
  "label gm_spec = ''Gross Margin (%)''"
  by (simp_all add: revenue_spec_def gm_spec_def TABLE_KEYS_def)

lemma ratio_row:
  assumes "asPct k = Some True"
    and "valAt (metricsQ_data st) (key k) (leftDate st) = Some (Fin a)"
    and "valAt (metricsQ_data st) (key k) (rightDate st) = Some (Fin b)"
  shows "l (row st k) = Some (Fin (a * 100))"
    and "r (row st k) = Some (Fin (b * 100))"
    and "d (row st k) = Some (Fin (b * 100 - a * 100))"
    and "dpct (row st k) =
           (if a = 0 then None else Some (Fin ((b * 100 - a * 100) / (a * 100) * 100)))"
  using assms
  by (simp_all add: row_d row_dpct row_l row_r scaled_def absDelta_def pctDelta_def)

lemma plain_row:
  assumes "asPct k \<noteq> Some True"
    and "valAt (metricsQ_data st) (key k) (leftDate st) = Some (Fin a)"
    and "valAt (metricsQ_data st) (key k) (rightDate st) = Some (Fin b)"
  shows "l (row st k) = Some (Fin a)"
    and "r (row st k) = Some (Fin b)"
    and "d (row st k) = Some (Fin (b - a))"
    and "dpct (row st k) = (if a = 0 then None else Some (Fin ((b - a) / a * 100)))"
  using assms
  by (simp_all add: row_d row_dpct row_l row_r scaled_def absDelta_def pctDelta_def)

text \<open>
  Without the test \<open>from === 0\<close> the quotient would leave the finite numbers: from 0 to
  50 it is an infinity, from 0 to 0 it is NaN.
\<close>

lemma unguarded_quotient_not_finite:
  "js_mul (js_div (js_sub (Fin 50) (Fin 0)) (Fin 0)) (Fin 100) = PosInf \<and>
   js_mul (js_div (js_sub (Fin 0) (Fin 0)) (Fin 0)) (Fin 100) = NaN"
  by simp

section \<open>The delta calculator\<close>

text \<open>
  C4. A left value of exactly zero makes the percent delta undefined, whatever the right
  value is: the division by zero, which would give an infinity or NaN, is not made. When
  both values are there and the left one is not zero, the percent delta is
  \<open>(right - left) / left * 100\<close>. Both hold for every row of the table (any page, any
  catalog entry) and for \<open>pctDelta\<close> on any numbers.
\<close>

theorem pctDelta_zero_left_undefined:
  "(l (row st k) = Some (Fin 0) \<longrightarrow> dpct (row st k) = None) \<and>
   (l (row st k) = Some (Fin a) \<and> r (row st k) = Some (Fin b) \<and> a \<noteq> 0 \<longrightarrow>
      dpct (row st k) = Some (Fin ((b - a) / a * 100))) \<and>
   pctDelta (Some (Fin 0)) t = None \<and>
   (f \<noteq> Fin 0 \<longrightarrow>
      pctDelta (Some f) (Some v) = Some (js_mul (js_div (js_sub v f) f) (Fin 100)))"
  by (simp add: row_dpct pctDelta_def split: option.splits)

theorem pctDelta_zero_left_undefined_witness:
  "l (row (sample_page [(''revenue'', 0, 50)]) revenue_spec) = Some (Fin 0) \<and>
   r (row (sample_page [(''revenue'', 0, 50)]) revenue_spec) = Some (Fin 50) \<and>
   dpct (row (sample_page [(''revenue'', 0, 50)]) revenue_spec) = None \<and>
   l (row (sample_page [(''revenue'', 80, 100)]) revenue_spec) = Some (Fin 80) \<and>
   r (row (sample_page [(''revenue'', 80, 100)]) revenue_spec) = Some (Fin 100) \<and>
   dpct (row (sample_page [(''revenue'', 80, 100)]) revenue_spec) = Some (Fin 25) \<and>
   pctDelta (Some (Fin 80)) (Some (Fin 100)) = Some (Fin 25)"
proof -
  have l0: "l (row (sample_page [(''revenue'', 0, 50)]) revenue_spec) = Some (Fin 0)"
    by code_simp
  have r0: "r (row (sample_page [(''revenue'', 0, 50)]) revenue_spec) = Some (Fin 50)"
    by code_simp
  have l1: "l (row (sample_page [(''revenue'', 80, 100)]) revenue_spec) = Some (Fin 80)"
    by code_simp
  have r1: "r (row (sample_page [(''revenue'', 80, 100)]) revenue_spec) = Some (Fin 100)"
    by code_simp
  have ne: "Fin 80 \<noteq> Fin 0"
    by simp
  show ?thesis
    using l0 r0 l1 r1 ne
      pctDelta_zero_left_undefined
        [of "sample_page [(''revenue'', 0, 50)]" revenue_spec 0 50 "Some (Fin 50)" "Fin 80" "Fin 100"]
      pctDelta_zero_left_undefined
        [of "sample_page [(''revenue'', 80, 100)]" revenue_spec 80 100 None "Fin 80" "Fin 100"]
    by simp
qed

text \<open>
  C5. For every catalog entry and every page: when the series has no value at the left
  period or none at the right period, the absolute delta and the percent delta of the row
  are both undefined. The table builder has no failing branch: it is a total function that
  returns one row for each of the eight catalog entries, whatever the page holds.
\<close>

theorem missing_value_undefined_deltas:
  "length (rows st) = 8 \<and>
   (valAt (metricsQ_data st) (key k) (leftDate st) = None \<or>
    valAt (metricsQ_data st) (key k) (rightDate st) = None \<longrightarrow>
      d (row st k) = None \<and> dpct (row st k) = None)"
proof -
  have "length (rows st) = 8"
    by (simp add: rows_def TABLE_KEYS_def)
  moreover have "d (row st k) = None \<and> dpct (row st k) = None"
    if "l (row st k) = None \<or> r (row st k) = None"
    using that by (auto simp: row_d row_dpct absDelta_def pctDelta_def split: option.splits)
  ultimately show ?thesis
    by (simp add: row_l row_r)
qed

theorem missing_value_undefined_deltas_witness:
  "valAt (metricsQ_data (sample_page [(''revenue'', 0, 50)])) (key gm_spec)
     (leftDate (sample_page [(''revenue'', 0, 50)])) = None \<and>
   length (rows (sample_page [(''revenue'', 0, 50)])) = 8 \<and>
   d (row (sample_page [(''revenue'', 0, 50)]) gm_spec) = None \<and>
   dpct (row (sample_page [(''revenue'', 0, 50)]) gm_spec) = None"
proof -
  have h: "valAt (metricsQ_data (sample_page [(''revenue'', 0, 50)])) (key gm_spec)
     (leftDate (sample_page [(''revenue'', 0, 50)])) = None"
    by code_simp
  show ?thesis
    using h missing_value_undefined_deltas [of "sample_page [(''revenue'', 0, 50)]" gm_spec]
    by simp
qed

text \<open>
  C8. For every catalog entry and every page, when the absolute delta is defined for the
  comparison and for the comparison with the two periods exchanged, the first is the
  negation of the second.
\<close>

theorem absolute_delta_antisymmetric:
  assumes "d (row st k) = Some a" and "d (row (swapped st) k) = Some b"
  shows "a = js_neg b"
proof -
  have "l (row (swapped st) k) = r (row st k)" "r (row (swapped st) k) = l (row st k)"
    by (simp_all add: row_l row_r swapped_dates)
  with assms show ?thesis
    by (simp add: row_d absDelta_swap)
qed

theorem absolute_delta_antisymmetric_witness:
  "d (row (sample_page [(''revenue'', 100, 120)]) revenue_spec) = Some (Fin 20) \<and>
   d (row (swapped (sample_page [(''revenue'', 100, 120)])) revenue_spec) = Some (Fin (- 20)) \<and>
   Fin 20 = js_neg (Fin (- 20))"
proof -
  have 1: "d (row (sample_page [(''revenue'', 100, 120)]) revenue_spec) = Some (Fin 20)"
    by code_simp
  have 2: "d (row (swapped (sample_page [(''revenue'', 100, 120)])) revenue_spec)
             = Some (Fin (- 20))"
    by code_simp
  show ?thesis
    using 1 2 absolute_delta_antisymmetric [OF 1 2] by blast
qed

text \<open>
  The percent delta has no such symmetry: from 100 to 120 it is 20, from 120 to 100 it is
  \<open>- 50 / 3\<close>.
\<close>

lemma percent_delta_not_antisymmetric:
  "dpct (row (sample_page [(''revenue'', 100, 120)]) revenue_spec) = Some (Fin 20) \<and>
   dpct (row (swapped (sample_page [(''revenue'', 100, 120)])) revenue_spec)
     = Some (Fin (- 50 / 3))"
  by code_simp

text \<open>
  C10. In every row of the table, a defined percent delta comes with a defined absolute
  delta. So where \<open>bullets\<close> has checked \<open>dpct != null\<close> and then reads \<open>d\<close> without a check
  (\<open>rev.d!\<close>, \<open>oi.d!\<close>, \<open>ni.d!\<close>), the value is there.
\<close>

theorem dpct_defined_implies_d_defined:
  assumes "rw \<in> set (rows st)" and "dpct rw \<noteq> None"
  shows "d rw \<noteq> None"
  using assms
  by (auto simp: rows_def row_d row_dpct absDelta_def pctDelta_def split: option.splits)

theorem dpct_defined_implies_d_defined_witness:
  "row (sample_page [(''revenue'', 100, 120)]) revenue_spec
     \<in> set (rows (sample_page [(''revenue'', 100, 120)])) \<and>
   dpct (row (sample_page [(''revenue'', 100, 120)]) revenue_spec) \<noteq> None \<and>
   d (row (sample_page [(''revenue'', 100, 120)]) revenue_spec) \<noteq> None"
proof -
  have 1: "row (sample_page [(''revenue'', 100, 120)]) revenue_spec
     \<in> set (rows (sample_page [(''revenue'', 100, 120)]))"
    by (simp add: rows_def revenue_spec_def TABLE_KEYS_def)
  have 2: "dpct (row (sample_page [(''revenue'', 100, 120)]) revenue_spec) \<noteq> None"
    by code_simp
  show ?thesis
    using 1 2 dpct_defined_implies_d_defined [OF 1 2] by blast
qed

text \<open>
  C2, as stated, fails. Gross margin is the ratio metric of the catalog. For the raw
  fractions 0.400 and 0.425 the scaled values are 40 and 42.5 and their point difference
  is 2.5, but the percent delta of the row is 6.25: \<open>pctDelta\<close> is applied to the scaled
  values as to those of any other row.
\<close>

theorem ratio_percent_delta_not_point_difference:
  "asPct gm_spec = Some True \<and>
   l (row (sample_page [(''gm'', 2 / 5, 17 / 40)]) gm_spec) = Some (Fin 40) \<and>
   r (row (sample_page [(''gm'', 2 / 5, 17 / 40)]) gm_spec) = Some (Fin (85 / 2)) \<and>
   dpct (row (sample_page [(''gm'', 2 / 5, 17 / 40)]) gm_spec) = Some (Fin (25 / 4)) \<and>
   dpct (row (sample_page [(''gm'', 2 / 5, 17 / 40)]) gm_spec)
     \<noteq> Some (js_sub (Fin (85 / 2)) (Fin 40))"
  by code_simp

text \<open>
  C2, amended. For every ratio metric with both values present, the absolute delta is the
  percentage-point difference of the scaled right and left values; the percent delta is the
  relative change \<open>(right - left) / left * 100\<close> of the scaled values, undefined when the
  left value is zero; it is not a point difference.
\<close>

theorem ratio_percent_delta_is_relative_change:
  assumes "asPct k = Some True"
    and "valAt (metricsQ_data st) (key k) (leftDate st) = Some (Fin a)"
    and "valAt (metricsQ_data st) (key k) (rightDate st) = Some (Fin b)"
  shows "d (row st k) = Some (Fin (b * 100 - a * 100)) \<and>
         dpct (row st k) =
           (if a = 0 then None else Some (Fin ((b * 100 - a * 100) / (a * 100) * 100)))"
  using ratio_row [OF assms] by simp

theorem ratio_percent_delta_is_relative_change_witness:
  "asPct gm_spec = Some True \<and>
   d (row (sample_page [(''gm'', 2 / 5, 17 / 40)]) gm_spec) = Some (Fin (5 / 2)) \<and>
   dpct (row (sample_page [(''gm'', 2 / 5, 17 / 40)]) gm_spec) = Some (Fin (25 / 4))"
proof -
  have 1: "asPct gm_spec = Some True"
    by (simp add: spec_fields)
  have 2: "valAt (metricsQ_data (sample_page [(''gm'', 2 / 5, 17 / 40)])) (key gm_spec)
             (leftDate (sample_page [(''gm'', 2 / 5, 17 / 40)])) = Some (Fin (2 / 5))"
    by code_simp
  have 3: "valAt (metricsQ_data (sample_page [(''gm'', 2 / 5, 17 / 40)])) (key gm_spec)
             (rightDate (sample_page [(''gm'', 2 / 5, 17 / 40)])) = Some (Fin (17 / 40))"
    by code_simp
  show ?thesis
    using 1 ratio_percent_delta_is_relative_change [OF 1 2 3] by simp
qed

text \<open>
  C6. For every ratio metric both values are multiplied by 100 before the deltas are
  computed, so the absolute delta is in percentage points. For gross margin going from
  the raw fraction 0.400 to 0.425 it is 2.5, not 0.025 and not 6.25.
\<close>

theorem ratio_delta_in_percentage_points:
  "(asPct k = Some True \<and>
    valAt (metricsQ_data st) (key k) (leftDate st) = Some (Fin a) \<and>
    valAt (metricsQ_data st) (key k) (rightDate st) = Some (Fin b) \<longrightarrow>
      l (row st k) = Some (Fin (a * 100)) \<and> r (row st k) = Some (Fin (b * 100)) \<and>
      d (row st k) = Some (Fin (b * 100 - a * 100))) \<and>
   l (row (sample_page [(''gm'', 2 / 5, 17 / 40)]) gm_spec) = Some (Fin 40) \<and>
   r (row (sample_page [(''gm'', 2 / 5, 17 / 40)]) gm_spec) = Some (Fin (85 / 2)) \<and>
   d (row (sample_page [(''gm'', 2 / 5, 17 / 40)]) gm_spec) = Some (Fin (5 / 2)) \<and>
   d (row (sample_page [(''gm'', 2 / 5, 17 / 40)]) gm_spec) \<noteq> Some (Fin (1 / 40)) \<and>
   d (row (sample_page [(''gm'', 2 / 5, 17 / 40)]) gm_spec) \<noteq> Some (Fin (25 / 4))"
proof -
  have "l (row (sample_page [(''gm'', 2 / 5, 17 / 40)]) gm_spec) = Some (Fin 40)"
    by code_simp
  moreover have "r (row (sample_page [(''gm'', 2 / 5, 17 / 40)]) gm_spec) = Some (Fin (85 / 2))"
    by code_simp
  moreover have "d (row (sample_page [(''gm'', 2 / 5, 17 / 40)]) gm_spec) = Some (Fin (5 / 2))"
    by code_simp
  moreover have "Some (Fin (5 / 2)) \<noteq> Some (Fin (1 / 40))" "Some (Fin (5 / 2)) \<noteq> Some (Fin (25 / 4))"
    by simp_all
  ultimately show ?thesis
    using ratio_row(1-3) [of k st a b] by simp
qed

theorem ratio_delta_in_percentage_points_witness:
  "asPct gm_spec = Some True \<and>
   valAt (metricsQ_data (sample_page [(''gm'', 2 / 5, 17 / 40)])) (key gm_spec)
     (leftDate (sample_page [(''gm'', 2 / 5, 17 / 40)])) = Some (Fin (2 / 5)) \<and>
   valAt (metricsQ_data (sample_page [(''gm'', 2 / 5, 17 / 40)])) (key gm_spec)
     (rightDate (sample_page [(''gm'', 2 / 5, 17 / 40)])) = Some (Fin (17 / 40)) \<and>
   d (row (sample_page [(''gm'', 2 / 5, 17 / 40)]) gm_spec) = Some (Fin (17 / 40 * 100 - 2 / 5 * 100))"
proof -
  have 1: "asPct gm_spec = Some True"
    by (simp add: spec_fields)
  have 2: "valAt (metricsQ_data (sample_page [(''gm'', 2 / 5, 17 / 40)])) (key gm_spec)
             (leftDate (sample_page [(''gm'', 2 / 5, 17 / 40)])) = Some (Fin (2 / 5))"
    by code_simp
  have 3: "valAt (metricsQ_data (sample_page [(''gm'', 2 / 5, 17 / 40)])) (key gm_spec)
             (rightDate (sample_page [(''gm'', 2 / 5, 17 / 40)])) = Some (Fin (17 / 40))"
    by code_simp
  show ?thesis
    using 1 2 3 ratio_delta_in_percentage_points [of gm_spec "sample_page [(''gm'', 2 / 5, 17 / 40)]" "2 / 5" "17 / 40"]
    by blast
qed

section \<open>The summary\<close>

lemma push_if_dpct_Some: "dpct rw = Some p \<Longrightarrow> push_if_dpct (Some rw) line = [line rw p]"
  by (simp add: push_if_dpct_def)

lemma push_if_d_Some: "d rw = Some dv \<Longrightarrow> push_if_d (Some rw) line = [line rw dv]"
  by (simp add: push_if_d_def)

lemma revenue_line_100_120:
  assumes "l rw = Some (Fin 100)" and "r rw = Some (Fin 120)" and "d rw = Some (Fin 20)"
  shows "revenue_line en_US rw (Fin 20) = ''Revenue increased 20.0% (+20), from 100 to 120.''"
proof -
  have "toFixed (js_abs (Fin 20)) 1 = ''20.0''"
    by code_simp
  moreover have "fmt en_US (Some (Fin 20)) (Some 0) = ''20''"
    by code_simp
  moreover have "fmt en_US (Some (Fin 100)) (Some 0) = ''100''"
    by code_simp
  moreover have "fmt en_US (Some (Fin 120)) (Some 0) = ''120''"
    by code_simp
  moreover have "ge0 (Some (Fin 20))"
    by code_simp
  ultimately show ?thesis
    by (simp add: revenue_line_def assms)
qed

lemma revenue_line_any_printer:
  assumes "l rw = Some (Fin 100)" and "r rw = Some (Fin 120)" and "d rw = Some (Fin 20)"
  shows "revenue_line loc rw (Fin 20)
           = ''Revenue increased 20.0% (+'' @ loc (Fin 20) 0 @ ''), from '' @ loc (Fin 100) 0
             @ '' to '' @ loc (Fin 120) 0 @ ''.''"
proof -
  have "toFixed (js_abs (Fin 20)) 1 = ''20.0''"
    by code_simp
  moreover have "ge0 (Some (Fin 20))"
    by code_simp
  ultimately show ?thesis
    by (simp add: revenue_line_def assms fmt_def)
qed

text \<open>
  C7, as stated, fails. The three numbers after the percentage are printed by
  \<open>toLocaleString\<close> in the default locale of the browser, and the sentence of the claim is
  the one of a locale that prints as en-US does. In ar-EG, on the same ready page with
  revenue 100 and 120, the sentence has the Arabic-Indic digits for 20, 100 and 120; only
  \<open>20.0\<close>, printed by \<open>toFixed\<close>, stays.
\<close>

theorem revenue_sentence_depends_on_locale:
  "ready (sample_page [(''revenue'', 100, 120)]) \<and>
   valAt (metricsQ_data (sample_page [(''revenue'', 100, 120)])) ''revenue''
     (leftDate (sample_page [(''revenue'', 100, 120)])) = Some (Fin 100) \<and>
   valAt (metricsQ_data (sample_page [(''revenue'', 100, 120)])) ''revenue''
     (rightDate (sample_page [(''revenue'', 100, 120)])) = Some (Fin 120) \<and>
   bullets ar_EG (sample_page [(''revenue'', 100, 120)])
     = [''Revenue increased 20.0% (+'' @ [CHR 0xD9, CHR 0xA2, CHR 0xD9, CHR 0xA0]
        @ ''), from '' @ [CHR 0xD9, CHR 0xA1, CHR 0xD9, CHR 0xA0, CHR 0xD9, CHR 0xA0]
        @ '' to '' @ [CHR 0xD9, CHR 0xA1, CHR 0xD9, CHR 0xA2, CHR 0xD9, CHR 0xA0] @ ''.''] \<and>
   bullets ar_EG (sample_page [(''revenue'', 100, 120)])
     \<noteq> [''Revenue increased 20.0% (+20), from 100 to 120.'']"
  by code_simp

text \<open>
  C7, amended. On a ready page whose revenue is 100 at the left period and 120 at the right
  one, the absolute delta is 20, the percent delta is 20 and prints as \<open>20.0\<close>, and the
  summary begins with the revenue sentence, in which 20, 100 and 120 are as the default
  locale prints them; where that locale prints numbers as en-US does, the sentence is
  exactly \<open>Revenue increased 20.0% (+20), from 100 to 120.\<close>
\<close>

theorem revenue_scenario:
  assumes "ready st"
    and "valAt (metricsQ_data st) ''revenue'' (leftDate st) = Some (Fin 100)"
    and "valAt (metricsQ_data st) ''revenue'' (rightDate st) = Some (Fin 120)"
  shows "d (row st revenue_spec) = Some (Fin 20) \<and>
         dpct (row st revenue_spec) = Some (Fin 20) \<and>
         toFixed (Fin 20) 1 = ''20.0'' \<and>
         take 1 (bullets loc st)
           = [''Revenue increased 20.0% (+'' @ loc (Fin 20) 0 @ ''), from '' @ loc (Fin 100) 0
              @ '' to '' @ loc (Fin 120) 0 @ ''.''] \<and>
         take 1 (bullets en_US st) = [''Revenue increased 20.0% (+20), from 100 to 120.'']"
proof -
  have rw: "l (row st revenue_spec) = Some (Fin 100)" "r (row st revenue_spec) = Some (Fin 120)"
    "d (row st revenue_spec) = Some (Fin 20)" "dpct (row st revenue_spec) = Some (Fin 20)"
    using plain_row [of revenue_spec st 100 120] assms(2,3) by (simp_all add: spec_fields)
  have "toFixed (Fin 20) 1 = ''20.0''"
    by code_simp
  moreover have "push_if_dpct (get (rows st) ''revenue'') (revenue_line en_US)
      = [''Revenue increased 20.0% (+20), from 100 to 120.'']"
    using push_if_dpct_Some [OF rw(4), of "revenue_line en_US"] revenue_line_100_120 [OF rw(1-3)]
    by (simp only: get_rows(1))
  moreover have "push_if_dpct (get (rows st) ''revenue'') (revenue_line loc)
      = [''Revenue increased 20.0% (+'' @ loc (Fin 20) 0 @ ''), from '' @ loc (Fin 100) 0
         @ '' to '' @ loc (Fin 120) 0 @ ''.'']"
    using push_if_dpct_Some [OF rw(4), of "revenue_line loc"]
      revenue_line_any_printer [OF rw(1-3), of loc]
    by (simp only: get_rows(1))
  ultimately show ?thesis
    using rw assms(1) by (simp add: bullets_def)
qed

theorem revenue_scenario_witness:
  "ready (sample_page [(''revenue'', 100, 120)]) \<and>
   d (row (sample_page [(''revenue'', 100, 120)]) revenue_spec) = Some (Fin 20) \<and>
   dpct (row (sample_page [(''revenue'', 100, 120)]) revenue_spec) = Some (Fin 20) \<and>
   bullets en_US (sample_page [(''revenue'', 100, 120)])
     = [''Revenue increased 20.0% (+20), from 100 to 120.'']"
proof -
  have 1: "ready (sample_page [(''revenue'', 100, 120)])"
    by code_simp
  have 2: "valAt (metricsQ_data (sample_page [(''revenue'', 100, 120)])) ''revenue''
             (leftDate (sample_page [(''revenue'', 100, 120)])) = Some (Fin 100)"
    by code_simp
  have 3: "valAt (metricsQ_data (sample_page [(''revenue'', 100, 120)])) ''revenue''
             (rightDate (sample_page [(''revenue'', 100, 120)])) = Some (Fin 120)"
    by code_simp
  have 4: "bullets en_US (sample_page [(''revenue'', 100, 120)])
     = [''Revenue increased 20.0% (+20), from 100 to 120.'']"
    by code_simp
  show ?thesis
    using 1 4 revenue_scenario [OF 1 2 3, of en_US] by blast
qed

lemma gm_line_40_375:
  assumes "l rw = Some (Fin 40)" and "r rw = Some (Fin (75 / 2))" and "d rw = Some (Fin (- 5 / 2))"
  shows "gm_line en_US rw (Fin (- 5 / 2)) = ''Gross margin contracted 2.5 p.p., from 40% to 37.5%.''"
proof -
  have "toFixed (js_abs (Fin (- 5 / 2))) 1 = ''2.5''"
    by code_simp
  moreover have "fmt en_US (Some (Fin 40)) (Some 1) = ''40''"
    by code_simp
  moreover have "fmt en_US (Some (Fin (75 / 2))) (Some 1) = ''37.5''"
    by code_simp
  moreover have "\<not> ge0_or_zero (Some (Fin (- 5 / 2)))"
    by code_simp
  ultimately show ?thesis
    by (simp add: gm_line_def assms)
qed

text \<open>
  C3, as stated, fails. With gross margin 0.40 at the left period and 0.375 at the right
  one, the left value is printed as \<open>40\<close>, not \<open>40.0\<close>: \<open>fmt\<close> asks for at most one
  fraction digit, and a fraction of zero is not printed. The summary is not the sentence
  with \<open>40.0%\<close>.
\<close>

theorem gross_margin_sentence_without_trailing_zero:
  "valAt (metricsQ_data (sample_page [(''gm'', 2 / 5, 3 / 8)])) ''gm''
     (leftDate (sample_page [(''gm'', 2 / 5, 3 / 8)])) = Some (Fin (2 / 5)) \<and>
   valAt (metricsQ_data (sample_page [(''gm'', 2 / 5, 3 / 8)])) ''gm''
     (rightDate (sample_page [(''gm'', 2 / 5, 3 / 8)])) = Some (Fin (3 / 8)) \<and>
   cells en_US (row (sample_page [(''gm'', 2 / 5, 3 / 8)]) gm_spec) ! 1 \<noteq> ''40.0'' \<and>
   bullets en_US (sample_page [(''gm'', 2 / 5, 3 / 8)])
     \<noteq> [''Gross margin contracted 2.5 p.p., from 40.0% to 37.5%.'']"
  by code_simp

text \<open>
  C3, amended. On a ready page whose gross margin is 0.40 at the left period and 0.375 at
  the right one, the absolute delta is -2.5, the table shows \<open>40\<close>, \<open>37.5\<close> and \<open>-2.5\<close>,
  and the summary has the sentence \<open>Gross margin contracted 2.5 p.p., from 40% to 37.5%.\<close>
  The size of the delta is printed with exactly one fraction digit (\<open>toFixed(1)\<close>), the
  values before and after with at most one (numbers printed as in the locale en-US).
\<close>

theorem gross_margin_scenario:
  assumes "ready st"
    and "valAt (metricsQ_data st) ''gm'' (leftDate st) = Some (Fin (2 / 5))"
    and "valAt (metricsQ_data st) ''gm'' (rightDate st) = Some (Fin (3 / 8))"
  shows "d (row st gm_spec) = Some (Fin (- 5 / 2)) \<and>
         cells en_US (row st gm_spec) = [''Gross Margin (%)'', ''40'', ''37.5'', ''-2.5'', ''-6.3%''] \<and>
         toFixed (js_abs (Fin (- 5 / 2))) 1 = ''2.5'' \<and>
         ''Gross margin contracted 2.5 p.p., from 40% to 37.5%.'' \<in> set (bullets en_US st)"
proof -
  have rw: "l (row st gm_spec) = Some (Fin 40)" "r (row st gm_spec) = Some (Fin (75 / 2))"
    "d (row st gm_spec) = Some (Fin (- 5 / 2))" "dpct (row st gm_spec) = Some (Fin (- 25 / 4))"
    using ratio_row [of gm_spec st "2 / 5" "3 / 8"] assms(2,3) by (simp_all add: spec_fields)
  have "fmt en_US (Some (Fin 40)) (Some 1) = ''40''"
    by code_simp
  moreover have "fmt en_US (Some (Fin (75 / 2))) (Some 1) = ''37.5''"
    by code_simp
  moreover have "fmt en_US (Some (Fin (- 5 / 2))) (Some 1) = ''-2.5''"
    by code_simp
  moreover have "toFixed (Fin (- 25 / 4)) 1 = ''-6.3''" "\<not> js_ge (Fin (- 25 / 4)) (Fin 0)"
    by code_simp+
  ultimately have cs: "cells en_US (row st gm_spec)
      = [''Gross Margin (%)'', ''40'', ''37.5'', ''-2.5'', ''-6.3%'']"
    using rw by (simp add: cells_def row_def Let_def spec_fields)
  have tf: "toFixed (js_abs (Fin (- 5 / 2))) 1 = ''2.5''"
    by code_simp
  have "push_if_d (get (rows st) ''gm'') (gm_line en_US)
      = [''Gross margin contracted 2.5 p.p., from 40% to 37.5%.'']"
    using push_if_d_Some [OF rw(3), of "gm_line en_US"] gm_line_40_375 [OF rw(1-3)]
    by (simp only: get_rows(2))
  then have "''Gross margin contracted 2.5 p.p., from 40% to 37.5%.'' \<in> set (bullets en_US st)"
    using assms(1) by (simp add: bullets_def)
  with rw cs tf show ?thesis
    by blast
qed

theorem gross_margin_scenario_witness:
  "ready (sample_page [(''gm'', 2 / 5, 3 / 8)]) \<and>
   d (row (sample_page [(''gm'', 2 / 5, 3 / 8)]) gm_spec) = Some (Fin (- 5 / 2)) \<and>
   cells en_US (row (sample_page [(''gm'', 2 / 5, 3 / 8)]) gm_spec)
     = [''Gross Margin (%)'', ''40'', ''37.5'', ''-2.5'', ''-6.3%''] \<and>
   bullets en_US (sample_page [(''gm'', 2 / 5, 3 / 8)])
     = [''Gross margin contracted 2.5 p.p., from 40% to 37.5%.'']"
proof -
  have 1: "ready (sample_page [(''gm'', 2 / 5, 3 / 8)])"
    by code_simp
  have 2: "valAt (metricsQ_data (sample_page [(''gm'', 2 / 5, 3 / 8)])) ''gm''
             (leftDate (sample_page [(''gm'', 2 / 5, 3 / 8)])) = Some (Fin (2 / 5))"
    by code_simp
  have 3: "valAt (metricsQ_data (sample_page [(''gm'', 2 / 5, 3 / 8)])) ''gm''
             (rightDate (sample_page [(''gm'', 2 / 5, 3 / 8)])) = Some (Fin (3 / 8))"
    by code_simp
  have 4: "bullets en_US (sample_page [(''gm'', 2 / 5, 3 / 8)])
     = [''Gross margin contracted 2.5 p.p., from 40% to 37.5%.'']"
    by code_simp
  show ?thesis
    using 1 4 gross_margin_scenario [OF 1 2 3] by blast
qed

lemma subject_lines:
  "subject (revenue_line loc rw p) = Some ''revenue''"
  "subject (gm_line loc rw p) = Some ''gm''"
  "subject (eps_line loc rw p) = Some ''eps_diluted''"
  "subject (oi_line loc rw p) = Some ''operating_income''"
  "subject (ni_line loc rw p) = Some ''net_income''"
  "subject (ast_line rw p) = Some ''assets''"
  "subject (li_line rw p) = Some ''liabilities''"
  "subject (eq_line rw p) = Some ''equity''"
  by (simp_all add: subject_def starts_with_def revenue_line_def gm_line_def eps_line_def
      oi_line_def ni_line_def ast_line_def li_line_def eq_line_def)

lemma spec_asPct:
  "asPct revenue_spec = None" "asPct gm_spec = Some True"
  "asPct (TABLE_KEYS ! 2) = None" "asPct (TABLE_KEYS ! 3) = None" "asPct (TABLE_KEYS ! 4) = None"
  "asPct (TABLE_KEYS ! 5) = None" "asPct (TABLE_KEYS ! 6) = None" "asPct (TABLE_KEYS ! 7) = None"
  by (simp_all add: revenue_spec_def gm_spec_def TABLE_KEYS_def)

lemma map_subject_push_dpct:
  assumes "get (rows st) k = Some (row st sp)" and "asPct sp \<noteq> Some True"
    and "\<And>rw p. subject (line rw p) = Some k"
  shows "map subject (push_if_dpct (get (rows st) k) line) = told st k"
  using assms
  by (simp add: push_if_dpct_def told_def relevant_delta_defined_def row_asPct
           split: option.splits)

lemma map_subject_push_d:
  assumes "get (rows st) k = Some (row st sp)" and "asPct sp = Some True"
    and "\<And>rw p. subject (line rw p) = Some k"
  shows "map subject (push_if_d (get (rows st) k) line) = told st k"
  using assms
  by (simp add: push_if_d_def told_def relevant_delta_defined_def row_asPct
           split: option.splits)

lemma map_subject_pushes:
  "map subject (push_if_dpct (get (rows st) ''revenue'') (revenue_line loc)) = told st ''revenue''"
  "map subject (push_if_d (get (rows st) ''gm'') (gm_line loc)) = told st ''gm''"
  "map subject (push_if_dpct (get (rows st) ''eps_diluted'') (eps_line loc)) = told st ''eps_diluted''"
  "map subject (push_if_dpct (get (rows st) ''operating_income'') (oi_line loc)) = told st ''operating_income''"
  "map subject (push_if_dpct (get (rows st) ''net_income'') (ni_line loc)) = told st ''net_income''"
  "map subject (push_if_dpct (get (rows st) ''assets'') ast_line) = told st ''assets''"
  "map subject (push_if_dpct (get (rows st) ''liabilities'') li_line) = told st ''liabilities''"
  "map subject (push_if_dpct (get (rows st) ''equity'') eq_line) = told st ''equity''"
  by (rule map_subject_push_dpct map_subject_push_d, rule get_rows,
      simp add: spec_asPct, rule subject_lines)+

lemma map_Some_filter_told:
  "map Some (filter (relevant_delta_defined st) ks) = concat (map (told st) ks)"
  by (induction ks) (simp_all add: told_def)

lemma told_narrative_order:
  "map Some (filter (relevant_delta_defined st) narrative_order)
     = told st ''revenue'' @ told st ''gm'' @ told st ''eps_diluted''
       @ told st ''operating_income'' @ told st ''net_income''
       @ told st ''assets'' @ told st ''liabilities'' @ told st ''equity''"
  by (simp only: map_Some_filter_told narrative_order_def list.map concat.simps append_Nil2)

text \<open>
  C1, as stated, fails. On a page with deltas for assets and for operating income, the
  catalog has assets before operating income, and the summary has the sentence on
  operating income before the one on assets.
\<close>

theorem narrative_not_in_catalog_order:
  "ready (sample_page [(''assets'', 100, 110), (''operating_income'', 10, 15)]) \<and>
   bullets en_US (sample_page [(''assets'', 100, 110), (''operating_income'', 10, 15)])
     = [''Operating income up 50.0% (+5).'', ''Assets grew 10.0%.''] \<and>
   filter (relevant_delta_defined
       (sample_page [(''assets'', 100, 110), (''operating_income'', 10, 15)])) (map key TABLE_KEYS)
     = [''assets'', ''operating_income''] \<and>
   map subject (bullets en_US (sample_page [(''assets'', 100, 110), (''operating_income'', 10, 15)]))
     \<noteq> map Some (filter (relevant_delta_defined
           (sample_page [(''assets'', 100, 110), (''operating_income'', 10, 15)]))
         (map key TABLE_KEYS))"
  by code_simp

text \<open>
  C1, amended. For every page and every way of printing numbers, the sentences of the
  summary are about the metrics whose relevant delta is defined, one sentence each, in the
  fixed order revenue, gross margin, diluted EPS, operating income, net income, assets,
  liabilities, equity: the eight metrics of the catalog, with operating income and net
  income before assets and liabilities. The order does not depend on the values. A page
  that is not ready has no sentences.
\<close>

theorem narrative_in_fixed_order:
  "map subject (bullets loc st)
     = (if ready st then map Some (filter (relevant_delta_defined st) narrative_order) else [])"
proof (cases "ready st")
  case True
  then have "bullets loc st =
      push_if_dpct (get (rows st) ''revenue'') (revenue_line loc)
      @ push_if_d (get (rows st) ''gm'') (gm_line loc)
      @ push_if_dpct (get (rows st) ''eps_diluted'') (eps_line loc)
      @ push_if_dpct (get (rows st) ''operating_income'') (oi_line loc)
      @ push_if_dpct (get (rows st) ''net_income'') (ni_line loc)
      @ push_if_dpct (get (rows st) ''assets'') ast_line
      @ push_if_dpct (get (rows st) ''liabilities'') li_line
      @ push_if_dpct (get (rows st) ''equity'') eq_line"
    by (simp only: bullets_def not_True_eq_False if_False)
  then show ?thesis
    using True by (simp only: map_append map_subject_pushes told_narrative_order if_True)
next
  case False
  then show ?thesis
    by (simp add: bullets_def)
qed

theorem narrative_in_fixed_order_witness:
  "ready (sample_page [(''assets'', 100, 110), (''operating_income'', 10, 15)]) \<and>
   map subject (bullets en_US (sample_page [(''assets'', 100, 110), (''operating_income'', 10, 15)]))
     = [Some ''operating_income'', Some ''assets'']"
proof -
  have 1: "ready (sample_page [(''assets'', 100, 110), (''operating_income'', 10, 15)])"
    by code_simp
  have 2: "map Some (filter (relevant_delta_defined
       (sample_page [(''assets'', 100, 110), (''operating_income'', 10, 15)])) narrative_order)
     = [Some ''operating_income'', Some ''assets'']"
    by code_simp
  show ?thesis
    using 1 2 narrative_in_fixed_order [of en_US "sample_page [(''assets'', 100, 110), (''operating_income'', 10, 15)]"]
    by (simp only: if_True simp_thms)
qed

text \<open>The fixed order lists the same eight metrics as the catalog.\<close>

lemma narrative_order_same_metrics:
  "set narrative_order = set (map key TABLE_KEYS) \<and> length narrative_order = length TABLE_KEYS"
  by code_simp

section \<open>The margins of the ticker page\<close>

lemma over_undefined:
  "den = None \<or> den = Some (Fin 0) \<or> den = Some NaN \<or> num = None \<Longrightarrow> over num den = None"
  by (auto simp: over_def split: option.splits)

lemma over_defined:
  "truthy (Some b) \<Longrightarrow> over (Some a) (Some b) = Some (js_div a b)"
  by (simp add: over_def)

lemma js_div_finite_not_NaN:
  "truthy (Some b) \<Longrightarrow> js_div (Fin q) b \<noteq> NaN"
  by (cases b) simp_all

text \<open>
  C9, as stated, fails. The margins test the numerator for \<open>null\<close> and revenue for
  truth, not the quotient: with a gross profit that was read as an infinity (the JSON
  numeral \<open>1e400\<close>) and a revenue of 1, the gross margin is the infinity.
\<close>

theorem margin_can_be_infinite:
  "gp (sample_ticker [(''revenue'', Fin 1), (''gross_profit'', PosInf)]) = Some PosInf \<and>
   ticker_rev (sample_ticker [(''revenue'', Fin 1), (''gross_profit'', PosInf)]) = Some (Fin 1) \<and>
   gmRatio (sample_ticker [(''revenue'', Fin 1), (''gross_profit'', PosInf)]) = Some PosInf"
  by code_simp

text \<open>
  C9, amended. For every ticker page, each of the three margins (gross profit, operating
  income and net income over revenue) is undefined when revenue is missing at the selected
  period, when revenue is zero, or when the numerator is missing. The three expressions are
  total. A margin that is defined is the quotient, as JavaScript computes it, of the
  numerator and a revenue that is neither zero nor NaN; it is not NaN when the numerator is
  finite, and it is not tested for being an infinity.
\<close>

theorem margins_undefined_or_quotient:
  "(ticker_rev pg = None \<or> ticker_rev pg = Some (Fin 0) \<or> gp pg = None \<longrightarrow> gmRatio pg = None) \<and>
   (ticker_rev pg = None \<or> ticker_rev pg = Some (Fin 0) \<or> oi pg = None \<longrightarrow> opMargin pg = None) \<and>
   (ticker_rev pg = None \<or> ticker_rev pg = Some (Fin 0) \<or> ni pg = None \<longrightarrow> netMargin pg = None) \<and>
   (ticker_rev pg = Some b \<and> truthy (Some b) \<longrightarrow>
      (gp pg = Some a \<longrightarrow> gmRatio pg = Some (js_div a b)) \<and>
      (oi pg = Some a \<longrightarrow> opMargin pg = Some (js_div a b)) \<and>
      (ni pg = Some a \<longrightarrow> netMargin pg = Some (js_div a b))) \<and>
   (gp pg = Some (Fin q) \<longrightarrow> gmRatio pg \<noteq> Some NaN) \<and>
   (oi pg = Some (Fin q) \<longrightarrow> opMargin pg \<noteq> Some NaN) \<and>
   (ni pg = Some (Fin q) \<longrightarrow> netMargin pg \<noteq> Some NaN)"
proof -
  have none: "over num (ticker_rev pg) = None"
    if "ticker_rev pg = None \<or> ticker_rev pg = Some (Fin 0) \<or> num = None" for num
    using that over_undefined [of "ticker_rev pg" num] by auto
  have quot: "over (Some x) (ticker_rev pg) = Some (js_div x b)"
    if "ticker_rev pg = Some b" and "truthy (Some b)" for x
    using that by (simp add: over_defined)
  have nan: "over (Some (Fin q)) (ticker_rev pg) \<noteq> Some NaN"
  proof (cases "truthy (ticker_rev pg)")
    case True
    then obtain c where c: "ticker_rev pg = Some c"
      by (cases "ticker_rev pg") simp_all
    with True show ?thesis
      by (simp add: over_defined js_div_finite_not_NaN)
  next
    case False
    then show ?thesis
      by (simp add: over_def)
  qed
  show ?thesis
    unfolding gmRatio_def opMargin_def netMargin_def
    using none [of "gp pg"] none [of "oi pg"] none [of "ni pg"] quot [of a] nan
    by auto
qed

theorem margins_undefined_or_quotient_witness:
  "ticker_rev (sample_ticker [(''revenue'', Fin 0), (''gross_profit'', Fin 5)]) = Some (Fin 0) \<and>
   gmRatio (sample_ticker [(''revenue'', Fin 0), (''gross_profit'', Fin 5)]) = None \<and>
   ticker_rev (sample_ticker [(''revenue'', Fin 200), (''gross_profit'', Fin 50),
       (''operating_income'', Fin 30), (''net_income'', Fin 20)]) = Some (Fin 200) \<and>
   gmRatio (sample_ticker [(''revenue'', Fin 200), (''gross_profit'', Fin 50),
       (''operating_income'', Fin 30), (''net_income'', Fin 20)]) = Some (Fin (1 / 4)) \<and>
   opMargin (sample_ticker [(''revenue'', Fin 200), (''gross_profit'', Fin 50),
       (''operating_income'', Fin 30), (''net_income'', Fin 20)]) = Some (Fin (3 / 20)) \<and>
   netMargin (sample_ticker [(''revenue'', Fin 200), (''gross_profit'', Fin 50),
       (''operating_income'', Fin 30), (''net_income'', Fin 20)]) = Some (Fin (1 / 10))"
proof -
  let ?z = "sample_ticker [(''revenue'', Fin 0), (''gross_profit'', Fin 5)]"
  let ?p = "sample_ticker [(''revenue'', Fin 200), (''gross_profit'', Fin 50),
       (''operating_income'', Fin 30), (''net_income'', Fin 20)]"
  have z: "ticker_rev ?z = Some (Fin 0)"
    by code_simp
  have p: "ticker_rev ?p = Some (Fin 200)" "truthy (Some (Fin 200))"
    by code_simp+
  have g: "gp ?p = Some (Fin 50)" and o: "oi ?p = Some (Fin 30)" and n: "ni ?p = Some (Fin 20)"
    by code_simp+
  have q: "js_div (Fin 50) (Fin 200) = Fin (1 / 4)" "js_div (Fin 30) (Fin 200) = Fin (3 / 20)"
    "js_div (Fin 20) (Fin 200) = Fin (1 / 10)"
    by simp_all
  have "gmRatio ?z = None"
    using z margins_undefined_or_quotient [of ?z] by blast
  moreover have "gmRatio ?p = Some (Fin (1 / 4))"
    using p g q margins_undefined_or_quotient [of ?p "Fin 200" "Fin 50"] by metis
  moreover have "opMargin ?p = Some (Fin (3 / 20))"
    using p o q margins_undefined_or_quotient [of ?p "Fin 200" "Fin 30"] by metis
  moreover have "netMargin ?p = Some (Fin (1 / 10))"
    using p n q margins_undefined_or_quotient [of ?p "Fin 200" "Fin 20"] by metis
  ultimately show ?thesis
    using z p by blast
qed

end
